theory Spec2Isabelle
  imports Main "HOL-Library.AList"
begin

section \<open>Bozorli backend: orders, stock reservation and payment webhooks\<close>

text \<open>
  The development embeds the order model (\<open>models/Order.js\<close>), the product model
  (\<open>models/Product.js\<close>), the payment model (\<open>src/models/Payment.js\<close>), the order routes
  (\<open>routes/orders.js\<close>: create and cancel) and the payment webhook (\<open>routes/payments.js\<close>).

  Conventions of the embedding.
  \<^item> The database tables are explicit state: a record \<open>db\<close> that every handler takes and
    returns, with its answer.
  \<^item> The ORM (Sequelize) is not part of the repository. Its calls are embedded by what they
    ask of a table: \<open>findByPk\<close> is a lookup by primary key, \<open>findOne\<close> the first matching
    row, \<open>findAll\<close> the matching rows, \<open>update\<close> a write to the matching rows, \<open>create\<close>
    an insertion, and \<open>save\<close> the write of an instance's declared attributes to its row.
    A call throws when its \<open>where\<close> names a column that the table does not have, when a
    value of its \<open>where\<close> is \<open>undefined\<close>, and when \<open>create\<close> has no value for an attribute
    that is \<open>allowNull: false\<close> and has no default. A \<open>throw\<close> inside a handler is caught by
    its \<open>catch\<close>, which answers 500.
  \<^item> Names are read as they are written. An instance is a JavaScript object with the
    attributes that its model declares and whatever else is assigned to it; a property that
    is neither is \<open>undefined\<close>; \<open>save()\<close> writes the declared attributes only. Where a route
    or a method spells a name otherwise than the model declares it (\<open>storeId\<close> for
    \<open>store_id\<close>, \<open>payment.orderId\<close> for \<open>order_id\<close>, \<open>reservedQuantity\<close> for
    \<open>reserved_quantity\<close>), the embedding has both names, each as its file spells it.
  \<^item> \<open>new Date()\<close> and \<open>uuidv4()\<close> are inputs of the handler that calls them.
  \<^item> Money amounts (floating point) are left out: no property below depends on them.
\<close>

subsection \<open>Order model\<close>

datatype order_status =
    Created | Payment_pending | Confirmed | Assigning | Courier_assigned
  | En_route_to_store | At_store | Picking | En_route_to_customer | Delivered
  | Completed | Cancelled | Refunded

datatype payment_method = Card | Cash | Wallet

datatype payment_status = Pending | Paid | Failed | Refunded_payment

datatype actor = Customer | Store | Courier | Admin

type_synonym date = nat

text \<open>A line of the request body of \<open>POST /api/v1/orders\<close>: \<open>{productId, qty, note}\<close>.\<close>

record item =
  productId :: string
  qty :: int
  item_note :: "string option"

text \<open>
  A line of the JSON column \<open>Order.items\<close>. The cancel route also reads a property
  \<open>quantity\<close> of it (\<open>item_quantity\<close> here), which the lines copied from a request do
  not have.
\<close>

record order_item = item +
  item_quantity :: "int option"

record order =
  oid :: string
  user_id :: string
  store_id :: string
  paymentMethod :: payment_method
  status :: order_status
  assigned_courier_id :: "string option"
  idempotencyKey :: string
  items :: "order_item list"
  paymentStatus :: payment_status
  confirmedAt :: "date option"
  assignedAt :: "date option"
  pickedUpAt :: "date option"
  deliveredAt :: "date option"
  actualDeliveryTime :: "date option"
  cancelledAt :: "date option"
  cancellationReason :: "string option"
  cancelledBy :: "actor option"

datatype error = InvalidTransition order_status order_status | InsufficientStock | TypeError

text \<open>\<open>Order.prototype.canTransitionTo\<close>: the table \<open>validTransitions\<close> and the membership test.\<close>

fun validTransitions :: "order_status \<Rightarrow> order_status list" where
  "validTransitions Created = [Payment_pending, Cancelled]"
| "validTransitions Payment_pending = [Confirmed, Cancelled]"
| "validTransitions Confirmed = [Assigning, Cancelled]"
| "validTransitions Assigning = [Courier_assigned, Cancelled]"
| "validTransitions Courier_assigned = [En_route_to_store, Cancelled]"
| "validTransitions En_route_to_store = [At_store, Cancelled]"
| "validTransitions At_store = [Picking, Cancelled]"
| "validTransitions Picking = [En_route_to_customer, Cancelled]"
| "validTransitions En_route_to_customer = [Delivered, Cancelled]"
| "validTransitions Delivered = [Completed, Cancelled]"
| "validTransitions Completed = []"
| "validTransitions Cancelled = []"
| "validTransitions Refunded = []"

definition canTransitionTo :: "order \<Rightarrow> order_status \<Rightarrow> bool" where
  "canTransitionTo ord newStatus = (newStatus \<in> set (validTransitions (status ord)))"

text \<open>The \<open>switch\<close> of \<open>transitionTo\<close> that stamps the date of the stage entered.\<close>

fun stamp :: "date \<Rightarrow> order_status \<Rightarrow> order \<Rightarrow> order" where
  "stamp now Confirmed ord = ord\<lparr>confirmedAt := Some now\<rparr>"
| "stamp now Courier_assigned ord = ord\<lparr>assignedAt := Some now\<rparr>"
| "stamp now En_route_to_customer ord = ord\<lparr>pickedUpAt := Some now\<rparr>"
| "stamp now Delivered ord = ord\<lparr>deliveredAt := Some now, actualDeliveryTime := Some now\<rparr>"
| "stamp now Cancelled ord = ord\<lparr>cancelledAt := Some now\<rparr>"
| "stamp now _ ord = ord"

text \<open>
  The argument \<open>additionalData\<close> is an object whose properties \<open>Object.assign\<close> copies
  onto the order, in order; \<open>{}\<close>, the default, is the empty list.
\<close>

datatype assignment =
    Set_status order_status
  | Set_cancellationReason string
  | Set_cancelledBy actor
  | Set_assigned_courier_id string

fun assign1 :: "order \<Rightarrow> assignment \<Rightarrow> order" where
  "assign1 ord (Set_status s) = ord\<lparr>status := s\<rparr>"
| "assign1 ord (Set_cancellationReason r) = ord\<lparr>cancellationReason := Some r\<rparr>"
| "assign1 ord (Set_cancelledBy a) = ord\<lparr>cancelledBy := Some a\<rparr>"
| "assign1 ord (Set_assigned_courier_id c) = ord\<lparr>assigned_courier_id := Some c\<rparr>"

definition assign :: "order \<Rightarrow> assignment list \<Rightarrow> order" where
  "assign ord additionalData = foldl assign1 ord additionalData"

text \<open>
  \<open>Order.prototype.transitionTo\<close>. The \<open>throw\<close> is the left injection; the instance that
  \<open>save()\<close> writes is the right one.
\<close>

definition transitionTo :: "date \<Rightarrow> order \<Rightarrow> order_status \<Rightarrow> assignment list \<Rightarrow> error + order" where
  "transitionTo now ord newStatus additionalData =
     (if \<not> canTransitionTo ord newStatus then Inl (InvalidTransition (status ord) newStatus)
      else Inr (assign (stamp now newStatus (ord\<lparr>status := newStatus\<rparr>)) additionalData))"

subsection \<open>Product model\<close>

text \<open>
  A row of \<open>products\<close>: the stock columns that \<open>sequelize.define\<close> declares. The primary
  key \<open>id\<close> is the key of the table (see \<open>db\<close> below).
\<close>

record product =
  product_store_id :: string
  is_active :: bool
  quantity :: int
  reserved_quantity :: int

text \<open>
  An instance is a JavaScript object with the declared attributes and whatever else is
  assigned to it. \<open>reserve\<close> and \<open>releaseReservation\<close> assign \<open>this.reservedQuantity\<close>,
  which is not a declared attribute: it is \<open>undefined\<close> on a loaded instance, arithmetic on
  \<open>undefined\<close> gives \<open>NaN\<close>, and \<open>save()\<close> writes the declared attributes only.
\<close>

datatype js_number = Undefined | NaN | Num int

record product_instance = product +
  reservedQuantity :: js_number

definition load :: "product \<Rightarrow> product_instance" where
  "load row = product.extend row (product_instance.fields Undefined)"

definition row_of :: "product_instance \<Rightarrow> product" where
  "row_of p = product.truncate p"

text \<open>\<open>x + amount\<close> and \<open>Math.max(0, x - amount)\<close> for a property \<open>x\<close> and a number.\<close>

fun js_plus :: "js_number \<Rightarrow> int \<Rightarrow> js_number" where
  "js_plus (Num x) amount = Num (x + amount)"
| "js_plus _ amount = NaN"

fun js_max0_minus :: "js_number \<Rightarrow> int \<Rightarrow> js_number" where
  "js_max0_minus (Num x) amount = Num (max 0 (x - amount))"
| "js_max0_minus _ amount = NaN"

definition getAvailableQuantity :: "'a product_scheme \<Rightarrow> int" where
  "getAvailableQuantity p = max 0 (quantity p - reserved_quantity p)"

definition canReserve :: "'a product_scheme \<Rightarrow> int \<Rightarrow> bool" where
  "canReserve p amount = (getAvailableQuantity p \<ge> amount)"

definition reserve :: "product_instance \<Rightarrow> int \<Rightarrow> error + product_instance" where
  "reserve p amount =
     (if \<not> canReserve p amount then Inl InsufficientStock
      else Inr (p\<lparr>reservedQuantity := js_plus (reservedQuantity p) amount\<rparr>))"

definition releaseReservation :: "product_instance \<Rightarrow> int \<Rightarrow> product_instance" where
  "releaseReservation p amount =
     p\<lparr>reservedQuantity := js_max0_minus (reservedQuantity p) amount\<rparr>"

subsection \<open>Stores, payments and the database\<close>

datatype store_status = Open_store | Closed_store | Temporarily_closed

record store =
  store_status :: store_status

datatype pay_status = P_pending | P_authorized | P_captured | P_failed | P_refunded

record payment =
  order_id :: string
  provider_payment_id :: "string option"
  pay_status :: pay_status
  captured_at :: "date option"

text \<open>
  The tables. \<open>products\<close>, \<open>stores\<close> and \<open>payments\<close> are only read by primary key, so
  they are maps from the key; \<open>orders\<close> is also searched by idempotency key, so it is the
  list of its rows, in insertion order.
\<close>

record db =
  orders :: "order list"
  products :: "string \<rightharpoonup> product"
  stores :: "string \<rightharpoonup> store"
  payments :: "string \<rightharpoonup> payment"

datatype body = OrderRef string order_status | Message string | Ack

datatype response = Success nat body | Failure nat string

subsection \<open>\<open>POST /api/v1/orders\<close>\<close>

text \<open>What can make a call of the ORM throw.\<close>

datatype orm_error = DatabaseError | ValidationError | UniqueConstraintError | InvalidWhere

record address =
  address_text :: string

text \<open>
  The body of the request. \<open>body_deliveryAddress\<close> is \<open>None\<close> when the body has no
  \<open>deliveryAddress\<close> or has one that is not an object.
\<close>

record create_request =
  body_items :: "item list"
  body_storeId :: string
  body_deliveryAddress :: "address option"
  body_paymentMethod :: payment_method
  body_idempotency_key :: "string option"

text \<open>
  The validation chain: \<open>items\<close> is an array of at least one element, \<open>storeId\<close> a non-empty
  string and \<open>deliveryAddress\<close> an object; the other checks hold by the types of the
  request.
\<close>

definition validationResult :: "create_request \<Rightarrow> bool" where
  "validationResult req =
     (body_items req \<noteq> [] \<and> body_storeId req \<noteq> [] \<and> body_deliveryAddress req \<noteq> None)"

text \<open>\<open>req.body.idempotency_key || uuidv4()\<close>: an absent and an empty key are both falsy.\<close>

definition idempotencyKey_of :: "create_request \<Rightarrow> string \<Rightarrow> string" where
  "idempotencyKey_of req uuid =
     (case body_idempotency_key req of
        None \<Rightarrow> uuid
      | Some k \<Rightarrow> if k = [] then uuid else k)"

text \<open>
  The attributes that \<open>models/Product.js\<close> declares, and the two dates that
  \<open>timestamps: true\<close> adds. They are the columns of the table \<open>products\<close>.
\<close>

definition Product_attributes :: "string list" where
  "Product_attributes =
     [''id'', ''name'', ''description'', ''price'', ''sku'', ''store_id'', ''category'', ''unit'',
      ''images'', ''attributes'', ''in_stock'', ''quantity'', ''reserved_quantity'',
      ''is_active'', ''is_featured'', ''tags'', ''search_keywords'', ''original_price'',
      ''discount_percentage'', ''weight'', ''dimensions'', ''nutritional_info'',
      ''expiry_date'', ''manufacturing_date'', ''allergens'', ''dietary_info'',
      ''createdAt'', ''updatedAt'']"

text \<open>
  \<open>Product.findAll({ where: { ... } })\<close> for a \<open>where\<close> with the keys \<open>where_keys\<close>, that
  asks for the products of a store by their primary keys. A key that is not an attribute
  of the model reaches the database as the name of a column, and the database rejects a
  query on a column that the table does not have: \<open>findAll\<close> throws. With declared keys the
  result is the rows whose key is one of \<open>productIds\<close>, each once, that are active and of
  the store, as instances with their keys.
\<close>

definition findAll_products ::
  "string list \<Rightarrow> (string \<rightharpoonup> product) \<Rightarrow> string list \<Rightarrow> string \<Rightarrow>
     orm_error + (string \<times> product_instance) list" where
  "findAll_products where_keys tbl productIds storeId =
     (if \<not> set where_keys \<subseteq> set Product_attributes then Inl DatabaseError
      else
        Inr (List.map_filter
          (\<lambda>i. case tbl i of
                  None \<Rightarrow> None
                | Some p \<Rightarrow>
                    if product_store_id p = storeId \<and> is_active p then Some (i, load p) else None)
          (remdups productIds)))"

text \<open>
  The first loop: the \<open>productId\<close> of the first line whose product is not among the loaded
  ones or cannot reserve the line's \<open>qty\<close>; \<open>None\<close> when the loop runs to its end.
\<close>

fun checkStock :: "(string \<times> product_instance) list \<Rightarrow> item list \<Rightarrow> string option" where
  "checkStock ps [] = None"
| "checkStock ps (it # its) =
     (case map_of ps (productId it) of
        None \<Rightarrow> Some (productId it)
      | Some p \<Rightarrow> if \<not> canReserve p (qty it) then Some (productId it) else checkStock ps its)"

text \<open>
  The second loop. \<open>product.reserve(item.qty)\<close> changes the loaded instance and saves it;
  a \<open>throw\<close> (of \<open>reserve\<close>, or the \<open>TypeError\<close> of a call on \<open>undefined\<close>) leaves the
  loop with what was saved before it. The result is the error, if any, and the product
  table.
\<close>

fun applyReservations ::
  "(string \<times> product_instance) list \<Rightarrow> (string \<rightharpoonup> product) \<Rightarrow> item list \<Rightarrow>
     error option \<times> (string \<rightharpoonup> product)" where
  "applyReservations ps tbl [] = (None, tbl)"
| "applyReservations ps tbl (it # its) =
     (case map_of ps (productId it) of
        None \<Rightarrow> (Some TypeError, tbl)
      | Some p \<Rightarrow>
          (case reserve p (qty it) of
             Inl e \<Rightarrow> (Some e, tbl)
           | Inr p' \<Rightarrow>
               applyReservations (AList.update (productId it) p' ps)
                 (tbl(productId it \<mapsto> row_of p')) its))"

text \<open>\<open>items.map((i) => ({ ...i }))\<close>: the copy of a request line stored with the order.\<close>

definition copy_item :: "item \<Rightarrow> order_item" where
  "copy_item i = item.extend i (order_item.fields None)"

text \<open>
  The object given to \<open>Order.create\<close>, as the attributes of the model that it has a value
  for. \<open>values_store_id\<close> is \<open>None\<close> when the object has no property \<open>store_id\<close>.
\<close>

record order_values =
  values_user_id :: string
  values_store_id :: "string option"
  values_paymentMethod :: payment_method
  values_status :: order_status
  values_idempotencyKey :: string
  values_items :: "order_item list"

text \<open>
  \<open>Order.create\<close>: the attribute \<open>store_id\<close> is \<open>allowNull: false\<close> and has no default, so
  an object without it fails the validation of the new instance and \<open>create\<close> throws; so
  does the insertion of a primary key (\<open>newId\<close>, which \<open>create\<close> draws) that the table
  has. Otherwise the row is inserted, with the defaults of the model.
\<close>

definition Order_create :: "string \<Rightarrow> order_values \<Rightarrow> order list \<Rightarrow> orm_error + order" where
  "Order_create newId v rows =
     (case values_store_id v of
        None \<Rightarrow> Inl ValidationError
      | Some store \<Rightarrow>
          if newId \<in> set (map oid rows) then Inl UniqueConstraintError
          else
            Inr \<lparr> oid = newId, user_id = values_user_id v, store_id = store,
                  paymentMethod = values_paymentMethod v, status = values_status v,
                  assigned_courier_id = None, idempotencyKey = values_idempotencyKey v,
                  items = values_items v, paymentStatus = Pending,
                  confirmedAt = None, assignedAt = None, pickedUpAt = None, deliveredAt = None,
                  actualDeliveryTime = None, cancelledAt = None, cancellationReason = None,
                  cancelledBy = None \<rparr>)"

text \<open>
  The handler. \<open>user\<close> is \<open>req.user.id\<close>, \<open>uuid\<close> the value of \<open>uuidv4()\<close> for the key and
  \<open>newId\<close> the primary key that \<open>Order.create\<close> draws.

  The \<open>where\<close> of \<open>Product.findAll\<close> is \<open>{ id: productIds, storeId, is_active: true }\<close>: its
  keys are \<open>id\<close>, \<open>storeId\<close> and \<open>is_active\<close>. The object given to \<open>Order.create\<close> has the
  properties \<open>user_id\<close>, \<open>storeId\<close>, \<open>totalAmount\<close>, \<open>subtotalAmount\<close>, \<open>deliveryFee\<close>,
  \<open>paymentMethod\<close>, \<open>status\<close>, \<open>deliveryAddress\<close>, \<open>idempotencyKey\<close>, \<open>items\<close>,
  \<open>customerNotes\<close> and \<open>deliveryInstructions\<close>: it has no \<open>store_id\<close>, and \<open>storeId\<close> is
  not an attribute of the model.
\<close>

definition createOrder ::
  "db \<Rightarrow> string \<Rightarrow> string \<Rightarrow> string \<Rightarrow> create_request \<Rightarrow> db \<times> response" where
  "createOrder d user uuid newId req =
     (if \<not> validationResult req then (d, Failure 422 ''Validation failed'')
      else
        let key = idempotencyKey_of req uuid in
        case find (\<lambda>ord. idempotencyKey ord = key) (orders d) of
          Some existing \<Rightarrow> (d, Success 200 (OrderRef (oid existing) (status existing)))
        | None \<Rightarrow>
            (case stores d (body_storeId req) of
               None \<Rightarrow> (d, Failure 400 ''Store not available'')
             | Some store \<Rightarrow>
                 if store_status store \<noteq> Open_store then (d, Failure 400 ''Store not available'')
                 else
                   let productIds = map productId (body_items req) in
                   (case findAll_products [''id'', ''storeId'', ''is_active''] (products d)
                           productIds (body_storeId req) of
                      Inl e \<Rightarrow> (d, Failure 500 ''Failed to create order'')
                    | Inr ps \<Rightarrow>
                        if length ps \<noteq> length (body_items req)
                        then (d, Failure 400 ''Some products are not available'')
                        else
                          (case checkStock ps (body_items req) of
                             Some pid \<Rightarrow> (d, Failure 400 (''Insufficient stock for '' @ pid))
                           | None \<Rightarrow>
                               (case applyReservations ps (products d) (body_items req) of
                                  (Some e, tbl) \<Rightarrow>
                                    (d\<lparr>products := tbl\<rparr>, Failure 500 ''Failed to create order'')
                                | (None, tbl) \<Rightarrow>
                                    (case Order_create newId
                                            \<lparr> values_user_id = user, values_store_id = None,
                                              values_paymentMethod = body_paymentMethod req,
                                              values_status =
                                                (if body_paymentMethod req = Cash then Confirmed
                                                 else Payment_pending),
                                              values_idempotencyKey = key,
                                              values_items = map copy_item (body_items req) \<rparr>
                                            (orders d) of
                                       Inl e \<Rightarrow>
                                         (d\<lparr>products := tbl\<rparr>,
                                          Failure 500 ''Failed to create order'')
                                     | Inr ord \<Rightarrow>
                                         (d\<lparr>products := tbl, orders := orders d @ [ord]\<rparr>,
                                          Success 201 (OrderRef (oid ord) (status ord)))))))))"

subsection \<open>\<open>POST /api/v1/orders/:orderId/cancel\<close>\<close>

text \<open>\<open>item.quantity || item.qty || 0\<close>: the first of the two that is defined and not zero.\<close>

definition release_amount :: "order_item \<Rightarrow> int" where
  "release_amount it =
     (case item_quantity it of
        None \<Rightarrow> qty it
      | Some q \<Rightarrow> if q \<noteq> 0 then q else qty it)"

text \<open>
  The loop that releases the stock: each product is loaded from the table, released and
  saved.
\<close>

fun releaseItems :: "(string \<rightharpoonup> product) \<Rightarrow> order_item list \<Rightarrow> (string \<rightharpoonup> product)" where
  "releaseItems tbl [] = tbl"
| "releaseItems tbl (it # its) =
     (case tbl (productId it) of
        None \<Rightarrow> releaseItems tbl its
      | Some p \<Rightarrow>
          releaseItems
            (tbl(productId it \<mapsto> row_of (releaseReservation (load p) (release_amount it)))) its)"

text \<open>\<open>order.save()\<close>: the row of the order's primary key is replaced.\<close>

definition save_order :: "order \<Rightarrow> order list \<Rightarrow> order list" where
  "save_order ord rows = map (\<lambda>r. if oid r = oid ord then ord else r) rows"

definition cancellable :: "order_status list" where
  "cancellable = [Created, Payment_pending, Confirmed, Assigning]"

definition cancelOrder ::
  "date \<Rightarrow> db \<Rightarrow> string \<Rightarrow> string \<Rightarrow> string option \<Rightarrow> db \<times> response" where
  "cancelOrder now d user orderId reason =
     (case find (\<lambda>ord. oid ord = orderId) (orders d) of
        None \<Rightarrow> (d, Failure 404 ''Order not found'')
      | Some ord \<Rightarrow>
          if user_id ord \<noteq> user then (d, Failure 404 ''Order not found'')
          else if status ord \<notin> set cancellable
          then (d, Failure 400 ''Order cannot be cancelled'')
          else
            let ord' = ord\<lparr>status := Cancelled, cancelledAt := Some now,
                           cancelledBy := Some Customer, cancellationReason := reason\<rparr>
            in (d\<lparr>orders := save_order ord' (orders d),
                    products := releaseItems (products d) (items ord)\<rparr>,
                Success 200 (Message ''Order cancelled'')))"

subsection \<open>\<open>POST /api/v1/payments/webhook/:provider\<close>\<close>

text \<open>
  A webhook is the provider of the route and the three properties of the body that the
  handler reads for it: the payment identifier, the status word and the provider's
  transaction identifier (\<open>None\<close> for a property that is \<open>undefined\<close>). A route of
  another provider reads nothing. \<open>headers\<close> are the headers of the request, where a
  provider puts its signature. (A body without the nested objects that the branches of
  payme and stripe read makes the handler throw and answer 500, with nothing changed; such
  bodies are not among the values of \<open>webhookData\<close>.)
\<close>

datatype webhookData =
    Click "string option" "string option" "string option"
  | Payme "string option" "string option" "string option"
  | Uzum "string option" "string option" "string option"
  | Stripe "string option" "string option" "string option"
  | Other_provider string

record webhook_request =
  headers :: "(string \<times> string) list"
  webhookData :: webhookData

definition outcome :: "string option \<Rightarrow> string \<Rightarrow> pay_status" where
  "outcome st word = (if st = Some word then P_captured else P_failed)"

text \<open>The \<open>switch\<close>: \<open>(paymentId, status, transactionId)\<close>.\<close>

fun switch_provider :: "webhookData \<Rightarrow> string option \<times> pay_status option \<times> string option" where
  "switch_provider (Click merchant_trans_id st click_trans_id) =
     (merchant_trans_id, Some (outcome st ''success''), click_trans_id)"
| "switch_provider (Payme params_id st transaction) =
     (params_id, Some (outcome st ''success''), transaction)"
| "switch_provider (Uzum payment_id st transaction_id) =
     (payment_id, Some (outcome st ''completed''), transaction_id)"
| "switch_provider (Stripe payment_id st object_id) =
     (payment_id, Some (outcome st ''succeeded''), object_id)"
| "switch_provider (Other_provider name) = (None, None, None)"

text \<open>
  An instance of \<open>Payment\<close>. The model declares \<open>order_id\<close>, \<open>provider_payment_id\<close>,
  \<open>status\<close> and \<open>captured_at\<close>; the handler reads \<open>payment.orderId\<close> and assigns
  \<open>payment.providerPaymentId\<close> and \<open>payment.capturedAt\<close>, which are not attributes: they
  are \<open>undefined\<close> (\<open>None\<close>) on a loaded instance, and \<open>save()\<close> does not write them.
\<close>

record payment_instance = payment +
  payment_orderId :: "string option"
  providerPaymentId :: "string option"
  capturedAt :: "date option"

definition load_payment :: "payment \<Rightarrow> payment_instance" where
  "load_payment row = payment.extend row (payment_instance.fields None None None)"

definition payment_row :: "payment_instance \<Rightarrow> payment" where
  "payment_row p = payment.truncate p"

text \<open>
  \<open>Order.update({ paymentStatus: 'paid' }, { where: { id } })\<close>: the row of that primary key
  is written. For an \<open>id\<close> that is \<open>undefined\<close> the call throws.
\<close>

definition Order_update_paid :: "string option \<Rightarrow> order list \<Rightarrow> orm_error + order list" where
  "Order_update_paid key rows =
     (case key of
        None \<Rightarrow> Inl InvalidWhere
      | Some k \<Rightarrow> Inr (map (\<lambda>r. if oid r = k then r\<lparr>paymentStatus := Paid\<rparr> else r) rows))"

text \<open>
  The handler. The signature check of the source is a comment, so nothing reads
  \<open>headers\<close>. \<open>if (paymentId)\<close> is false for an undefined and for an empty identifier.
  \<open>Order.update\<close> comes before \<open>payment.save()\<close>, so when it throws nothing has been
  written.
\<close>

definition paymentWebhook :: "date \<Rightarrow> db \<Rightarrow> webhook_request \<Rightarrow> db \<times> response" where
  "paymentWebhook now d req =
     (case switch_provider (webhookData req) of
        (Some paymentId, Some st, transactionId) \<Rightarrow>
          if paymentId = [] then (d, Success 200 Ack)
          else
            (case payments d paymentId of
               None \<Rightarrow> (d, Success 200 Ack)
             | Some row \<Rightarrow>
                 let payment1 = (load_payment row)
                       \<lparr>pay_status := st, providerPaymentId := transactionId\<rparr>
                 in
                 if st = P_captured then
                   let payment2 = payment1\<lparr>capturedAt := Some now\<rparr> in
                   (case Order_update_paid (payment_orderId payment2) (orders d) of
                      Inl e \<Rightarrow> (d, Failure 500 ''Webhook processing failed'')
                    | Inr rows \<Rightarrow>
                        (d\<lparr>orders := rows,
                            payments := (payments d)(paymentId \<mapsto> payment_row payment2)\<rparr>,
                         Success 200 Ack))
                 else
                   (d\<lparr>payments := (payments d)(paymentId \<mapsto> payment_row payment1)\<rparr>,
                    Success 200 Ack))
      | _ \<Rightarrow> (d, Success 200 Ack))"

subsection \<open>The specification's words\<close>

text \<open>
  The transition table in the words of the specification, as sets of allowed targets.
\<close>

fun allowed_targets :: "order_status \<Rightarrow> order_status set" where
  "allowed_targets Created = {Payment_pending, Cancelled}"
| "allowed_targets Payment_pending = {Confirmed, Cancelled}"
| "allowed_targets Confirmed = {Assigning, Cancelled}"
| "allowed_targets Assigning = {Courier_assigned, Cancelled}"
| "allowed_targets Courier_assigned = {En_route_to_store, Cancelled}"
| "allowed_targets En_route_to_store = {At_store, Cancelled}"
| "allowed_targets At_store = {Picking, Cancelled}"
| "allowed_targets Picking = {En_route_to_customer, Cancelled}"
| "allowed_targets En_route_to_customer = {Delivered, Cancelled}"
| "allowed_targets Delivered = {Completed, Cancelled}"
| "allowed_targets Completed = {}"
| "allowed_targets Cancelled = {}"
| "allowed_targets Refunded = {}"

subsection \<open>Sample data\<close>

text \<open>
  One order \<open>o1\<close> of the customer \<open>u1\<close>, in a given status and payment status, one payment
  \<open>p1\<close> for it, and a webhook of the provider click that reports the success of \<open>p1\<close>
  and carries no header at all.
\<close>

abbreviation sample_order :: "order_status \<Rightarrow> payment_status \<Rightarrow> order" where
  "sample_order s ps \<equiv>
     \<lparr> oid = ''o1'', user_id = ''u1'', store_id = ''s1'', paymentMethod = Card, status = s,
       assigned_courier_id = None, idempotencyKey = ''k1'', items = [], paymentStatus = ps,
       confirmedAt = None, assignedAt = None, pickedUpAt = None, deliveredAt = None,
       actualDeliveryTime = None, cancelledAt = None, cancellationReason = None,
       cancelledBy = None \<rparr>"

abbreviation sample_payment :: payment where
  "sample_payment \<equiv>
     \<lparr> order_id = ''o1'', provider_payment_id = None, pay_status = P_pending,
       captured_at = None \<rparr>"

abbreviation sample_db :: "order_status \<Rightarrow> payment_status \<Rightarrow> db" where
  "sample_db s ps \<equiv>
     \<lparr> orders = [sample_order s ps], products = Map.empty, stores = Map.empty,
       payments = [''p1'' \<mapsto> sample_payment] \<rparr>"

abbreviation sample_capture :: webhook_request where
  "sample_capture \<equiv>
     \<lparr> headers = [], webhookData = Click (Some ''p1'') (Some ''success'') (Some ''t1'') \<rparr>"

text \<open>The same webhook reporting an error instead.\<close>

abbreviation sample_failure :: webhook_request where
  "sample_failure \<equiv>
     \<lparr> headers = [], webhookData = Click (Some ''p1'') (Some ''error'') (Some ''t2'') \<rparr>"

text \<open>
  A shop: the open store \<open>s1\<close> with one active product \<open>P\<close>, 5 in stock and none
  reserved, no order yet; and the request of a customer for \<open>n\<close> units of \<open>P\<close>, to be
  delivered to the address \<open>A\<close>, under the idempotency key \<open>K\<close>.
\<close>

abbreviation shop_db :: db where
  "shop_db \<equiv>
     \<lparr> orders = [],
       products = [''P'' \<mapsto> \<lparr>product_store_id = ''s1'', is_active = True, quantity = 5,
                                reserved_quantity = 0\<rparr>],
       stores = [''s1'' \<mapsto> \<lparr>store_status = Open_store\<rparr>], payments = Map.empty \<rparr>"

abbreviation order_units :: "int \<Rightarrow> create_request" where
  "order_units n \<equiv>
     \<lparr> body_items = [\<lparr>productId = ''P'', qty = n, item_note = None\<rparr>], body_storeId = ''s1'',
       body_deliveryAddress = Some \<lparr>address_text = ''A''\<rparr>,
       body_paymentMethod = Card, body_idempotency_key = Some ''K'' \<rparr>"

text \<open>
  The shop with an order in it: the order \<open>o2\<close> of the customer \<open>u1\<close> for 2 units of
  \<open>P\<close>, in a given status, and \<open>P\<close> with these 2 units reserved, so 3 available.
\<close>

abbreviation placed_order :: "order_status \<Rightarrow> order" where
  "placed_order s \<equiv>
     \<lparr> oid = ''o2'', user_id = ''u1'', store_id = ''s1'', paymentMethod = Card, status = s,
       assigned_courier_id = None, idempotencyKey = ''K'',
       items = [\<lparr>productId = ''P'', qty = 2, item_note = None, item_quantity = None\<rparr>],
       paymentStatus = Pending,
       confirmedAt = None, assignedAt = None, pickedUpAt = None, deliveredAt = None,
       actualDeliveryTime = None, cancelledAt = None, cancellationReason = None,
       cancelledBy = None \<rparr>"

abbreviation stocked_db :: "order_status \<Rightarrow> db" where
  "stocked_db s \<equiv>
     \<lparr> orders = [placed_order s],
       products = [''P'' \<mapsto> \<lparr>product_store_id = ''s1'', is_active = True, quantity = 5,
                                reserved_quantity = 2\<rparr>],
       stores = [''s1'' \<mapsto> \<lparr>store_status = Open_store\<rparr>], payments = Map.empty \<rparr>"

text \<open>The order \<open>o2\<close> and the shop after the customer has cancelled the order at time 7.\<close>

abbreviation cancelled_order :: order where
  "cancelled_order \<equiv>
     (placed_order Payment_pending)\<lparr>status := Cancelled, cancelledAt := Some 7,
        cancelledBy := Some Customer, cancellationReason := None\<rparr>"

abbreviation cancelled_db :: db where
  "cancelled_db \<equiv> (stocked_db Payment_pending)\<lparr>orders := [cancelled_order]\<rparr>"


section \<open>Properties\<close>

subsection \<open>Order state machine\<close>

lemma validTransitions_allowed: "set (validTransitions s) = allowed_targets s"
  by (cases s) auto

lemma status_stamp: "status (stamp now X ord) = status ord"
  by (cases X) simp_all

text \<open>
  C1. For every order and every target state \<open>X\<close>, \<open>transitionTo\<close> (with no additional data)
  throws \<open>InvalidTransition\<close> when \<open>X\<close> is not an allowed target of the order's current
  status and otherwise returns the order with \<open>status = X\<close>; the table of the code is
  exactly the table of allowed targets of the specification.
\<close>

theorem C1_transition_graph:
  "set (validTransitions s) = allowed_targets s \<and>
   (case transitionTo now ord X [] of
      Inl e \<Rightarrow> e = InvalidTransition (status ord) X \<and> X \<notin> allowed_targets (status ord)
    | Inr ord' \<Rightarrow> status ord' = X \<and> X \<in> allowed_targets (status ord))"
  by (simp add: validTransitions_allowed [symmetric] transitionTo_def canTransitionTo_def
      assign_def status_stamp)

text \<open>The same holds with additional data that does not assign \<open>status\<close>.\<close>

lemma status_assign:
  "\<forall>a\<in>set additionalData. \<forall>s. a \<noteq> Set_status s \<Longrightarrow>
   status (assign ord additionalData) = status ord"
  unfolding assign_def
proof (induction additionalData arbitrary: ord)
  case Nil
  show ?case by simp
next
  case (Cons a as)
  then have "status (assign1 ord a) = status ord"
    by (cases a) auto
  with Cons show ?case by simp
qed

lemma transitionTo_additionalData:
  assumes "\<forall>a\<in>set additionalData. \<forall>s. a \<noteq> Set_status s"
  shows "case transitionTo now ord X additionalData of
      Inl e \<Rightarrow> e = InvalidTransition (status ord) X \<and> X \<notin> allowed_targets (status ord)
    | Inr ord' \<Rightarrow> status ord' = X \<and> X \<in> allowed_targets (status ord)"
  using status_assign [OF assms]
  by (simp add: validTransitions_allowed [symmetric] transitionTo_def canTransitionTo_def
      status_stamp)

subsection \<open>Stock ledger\<close>

lemma load_simps:
  "row_of (load row) = row" "reservedQuantity (load row) = Undefined"
  "quantity (load row) = quantity row" "reserved_quantity (load row) = reserved_quantity row"
  "product_store_id (load row) = product_store_id row" "is_active (load row) = is_active row"
  by (simp_all add: load_def row_of_def product.defs product_instance.defs)

lemma row_of_simps:
  "row_of (p\<lparr>reservedQuantity := x\<rparr>) = row_of p"
  "quantity (row_of p) = quantity p" "reserved_quantity (row_of p) = reserved_quantity p"
  by (simp_all add: row_of_def product.defs)

lemma canReserve_row_of: "canReserve (row_of p) amount = canReserve p amount"
  by (simp add: canReserve_def getAvailableQuantity_def row_of_simps)

text \<open>Neither method changes a declared attribute, so what \<open>save()\<close> writes is the row read.\<close>

lemma reserve_row_of: "reserve p amount = Inr p' \<Longrightarrow> row_of p' = row_of p"
  by (auto simp: reserve_def row_of_simps split: if_splits)

lemma releaseReservation_row_of: "row_of (releaseReservation p amount) = row_of p"
  by (simp add: releaseReservation_def row_of_simps)

text \<open>
  C3. \<open>reserve\<close> and \<open>releaseReservation\<close> do not change the reserved quantity that
  \<open>getAvailableQuantity\<close> reads. Reserving 2 of a product with 5 in stock and none reserved
  succeeds and leaves \<open>reserved_quantity = 0\<close> (the assigned property is \<open>NaN\<close>); releasing
  2 of a product with 2 reserved leaves \<open>reserved_quantity = 2\<close>.
\<close>

theorem C3_reserve_changes_nothing:
  "reserve (load \<lparr>product_store_id = ''s1'', is_active = True, quantity = 5, reserved_quantity = 0\<rparr>) 2 =
     Inr \<lparr>product_store_id = ''s1'', is_active = True, quantity = 5, reserved_quantity = 0,
          reservedQuantity = NaN\<rparr> \<and>
   releaseReservation
     (load \<lparr>product_store_id = ''s1'', is_active = True, quantity = 5, reserved_quantity = 2\<rparr>) 2 =
     \<lparr>product_store_id = ''s1'', is_active = True, quantity = 5, reserved_quantity = 2,
      reservedQuantity = NaN\<rparr>"
  by (simp add: reserve_def releaseReservation_def canReserve_def getAvailableQuantity_def
      load_def product.defs product_instance.defs)

subsection \<open>Cancellation\<close>

lemma find_save_order:
  "find (\<lambda>r. oid r = k) rows = Some ord \<Longrightarrow> oid ord' = k \<Longrightarrow>
   find (\<lambda>r. oid r = k) (save_order ord' rows) = Some ord'"
  by (induction rows) (auto simp: save_order_def split: if_splits)

lemma find_oid: "find (\<lambda>r. oid r = k) rows = Some ord \<Longrightarrow> oid ord = k"
  by (induction rows) (auto split: if_splits)

text \<open>
  C5, as stated, fails: an order in the status \<open>courier_assigned\<close>, which is not terminal,
  cannot be cancelled by its customer.
\<close>

theorem C5_courier_assigned_counterexample:
  "cancelOrder 7 (sample_db Courier_assigned Pending) ''u1'' ''o1'' None =
     (sample_db Courier_assigned Pending, Failure 400 ''Order cannot be cancelled'')"
  by (simp add: cancelOrder_def cancellable_def)

text \<open>
  C5 (amended). For an order that exists and belongs to the caller, the cancel route
  answers 400 "Order cannot be cancelled" exactly when the status is not one of
  \<open>created\<close>, \<open>payment_pending\<close>, \<open>confirmed\<close>, \<open>assigning\<close>. For these four it answers 200
  and the order is stored with status \<open>cancelled\<close>, the date, the actor \<open>customer\<close> and the
  reason; for every other status nothing is changed.
\<close>

theorem C5_cancellable_statuses:
  assumes "find (\<lambda>r. oid r = orderId) (orders d) = Some ord" and "user_id ord = user"
  shows "(snd (cancelOrder now d user orderId reason) = Failure 400 ''Order cannot be cancelled'')
       = (status ord \<notin> {Created, Payment_pending, Confirmed, Assigning}) \<and>
     (if status ord \<in> {Created, Payment_pending, Confirmed, Assigning}
      then snd (cancelOrder now d user orderId reason) = Success 200 (Message ''Order cancelled'') \<and>
           find (\<lambda>r. oid r = orderId) (orders (fst (cancelOrder now d user orderId reason))) =
             Some (ord\<lparr>status := Cancelled, cancelledAt := Some now,
                        cancelledBy := Some Customer, cancellationReason := reason\<rparr>)
      else cancelOrder now d user orderId reason = (d, Failure 400 ''Order cannot be cancelled''))"
  using assms find_save_order [OF assms(1), of "ord\<lparr>status := Cancelled, cancelledAt := Some now,
                        cancelledBy := Some Customer, cancellationReason := reason\<rparr>"]
    find_oid [OF assms(1)]
  by (simp add: cancelOrder_def cancellable_def Let_def)

theorem C5_cancellable_statuses_witness:
  "snd (cancelOrder 7 (sample_db Confirmed Pending) ''u1'' ''o1'' None) =
     Success 200 (Message ''Order cancelled'') \<and>
   map status (orders (fst (cancelOrder 7 (sample_db Confirmed Pending) ''u1'' ''o1'' None))) =
     [Cancelled]"
  using C5_cancellable_statuses
    [of "''o1''" "sample_db Confirmed Pending" "sample_order Confirmed Pending" "''u1''" 7 None]
  by (simp add: cancelOrder_def cancellable_def save_order_def)

subsection \<open>Payment webhook\<close>

lemma paymentWebhook_headers:
  "paymentWebhook now d (req\<lparr>headers := h\<rparr>) = paymentWebhook now d req"
  by (simp add: paymentWebhook_def)

text \<open>
  What \<open>save()\<close> writes of the instance that the handler has assigned to: the status. And
  \<open>payment.orderId\<close> is \<open>undefined\<close> whatever the row is.
\<close>

lemma payment_row_assigned:
  "payment_row ((load_payment row)\<lparr>pay_status := st, providerPaymentId := t\<rparr>) =
     row\<lparr>pay_status := st\<rparr>"
  by (simp add: load_payment_def payment_row_def payment.defs payment_instance.defs)

lemma payment_orderId_undefined: "payment_orderId (load_payment row) = None"
  by (simp add: load_payment_def payment.defs payment_instance.defs)

text \<open>
  The three ways of the handler: a webhook that names no payment of the table is
  acknowledged and nothing is changed; one that reports a success for a payment of the table
  throws at \<open>Order.update\<close> and is answered 500, with nothing changed; one that reports
  anything else for a payment of the table stores the status \<open>failed\<close> and is acknowledged.
\<close>

lemma paymentWebhook_success:
  assumes "switch_provider (webhookData req) = (Some paymentId, Some P_captured, transactionId)"
    and "paymentId \<noteq> []" and "payments d paymentId = Some row"
  shows "paymentWebhook now d req = (d, Failure 500 ''Webhook processing failed'')"
  using assms
  by (simp add: paymentWebhook_def Order_update_paid_def payment_orderId_undefined)

lemma paymentWebhook_failure:
  assumes "switch_provider (webhookData req) = (Some paymentId, Some st, transactionId)"
    and "paymentId \<noteq> []" and "payments d paymentId = Some row" and "st \<noteq> P_captured"
  shows "paymentWebhook now d req =
    (d\<lparr>payments := (payments d)(paymentId \<mapsto> row\<lparr>pay_status := st\<rparr>)\<rparr>, Success 200 Ack)"
  using assms
  by (simp add: paymentWebhook_def payment_row_assigned)

lemma paymentWebhook_unknown:
  assumes "switch_provider (webhookData req) = (paymentId, st, transactionId)"
    and "\<not> (\<exists>i s row. paymentId = Some i \<and> i \<noteq> [] \<and> st = Some s \<and> payments d i = Some row)"
  shows "paymentWebhook now d req = (d, Success 200 Ack)"
  using assms by (auto simp: paymentWebhook_def split: option.splits)

text \<open>
  C6. The handler verifies nothing: its result is the same whatever the headers of the
  request are. A webhook without any header, so without a signature, that reports an error
  for the payment \<open>p1\<close> is acted upon: the payment, which was pending, is stored as failed
  and the webhook is acknowledged with 200.
\<close>

theorem C6_unsigned_webhook_accepted:
  "paymentWebhook now d (req\<lparr>headers := h\<rparr>) = paymentWebhook now d req \<and>
   paymentWebhook 9 (sample_db Payment_pending Pending) sample_failure =
     (\<lparr> orders = [sample_order Payment_pending Pending], products = Map.empty,
        stores = Map.empty,
        payments = [''p1'' \<mapsto> \<lparr> order_id = ''o1'', provider_payment_id = None,
                                 pay_status = P_failed, captured_at = None \<rparr>] \<rparr>,
      Success 200 Ack)"
  by (simp add: paymentWebhook_def outcome_def payment_row_assigned)

text \<open>
  C7. The webhook that reports the success of the payment \<open>p1\<close> of the order \<open>o1\<close>, which is
  in \<open>payment_pending\<close>, is answered 500 and changes nothing: the payment is still pending
  with no \<open>captured_at\<close>, the order still has \<open>paymentStatus = pending\<close> and the status
  \<open>payment_pending\<close>. The handler asks \<open>Order.update\<close> for the order \<open>payment.orderId\<close>,
  which is \<open>undefined\<close>: the attribute of the model is \<open>order_id\<close>.
\<close>

theorem C7_capture_not_reconciled:
  "paymentWebhook 9 (sample_db Payment_pending Pending) sample_capture =
     (sample_db Payment_pending Pending, Failure 500 ''Webhook processing failed'') \<and>
   order_id (load_payment sample_payment) = ''o1'' \<and>
   payment_orderId (load_payment sample_payment) = None"
  by (simp add: paymentWebhook_def outcome_def Order_update_paid_def load_payment_def
      payment.defs payment_instance.defs)

text \<open>
  C8. Delivering a webhook a second time changes nothing more: the database and the answer
  after the second delivery are those after the first, whatever the webhook, the database
  and the times of the deliveries are.
\<close>

theorem C8_replay_idempotent:
  "paymentWebhook t2 (fst (paymentWebhook t1 d req)) req = paymentWebhook t1 d req"
proof (cases "switch_provider (webhookData req)")
  case (fields paymentId st transactionId)
  show ?thesis
  proof (cases "\<exists>i s row. paymentId = Some i \<and> i \<noteq> [] \<and> st = Some s \<and> payments d i = Some row")
    case True
    then obtain i s row where
      h: "paymentId = Some i" "i \<noteq> []" "st = Some s" "payments d i = Some row"
      by blast
    show ?thesis
    proof (cases "s = P_captured")
      case True
      with fields h have "paymentWebhook t1 d req = (d, Failure 500 ''Webhook processing failed'')"
        by (simp add: paymentWebhook_success)
      moreover from True fields h
      have "paymentWebhook t2 d req = (d, Failure 500 ''Webhook processing failed'')"
        by (simp add: paymentWebhook_success)
      ultimately show ?thesis by simp
    next
      case False
      let ?d = "d\<lparr>payments := (payments d)(i \<mapsto> row\<lparr>pay_status := s\<rparr>)\<rparr>"
      from False fields h have first: "paymentWebhook t1 d req = (?d, Success 200 Ack)"
        by (simp add: paymentWebhook_failure)
      have "payments ?d i = Some (row\<lparr>pay_status := s\<rparr>)"
        by simp
      with False fields h have "paymentWebhook t2 ?d req =
          (?d\<lparr>payments := (payments ?d)(i \<mapsto> row\<lparr>pay_status := s, pay_status := s\<rparr>)\<rparr>,
           Success 200 Ack)"
        using paymentWebhook_failure [of req i s transactionId ?d "row\<lparr>pay_status := s\<rparr>" t2]
        by simp
      then have "paymentWebhook t2 ?d req = (?d, Success 200 Ack)"
        by simp
      with first show ?thesis by simp
    qed
  next
    case False
    with fields have "paymentWebhook t1 d req = (d, Success 200 Ack)"
      and "paymentWebhook t2 d req = (d, Success 200 Ack)"
      by (simp_all add: paymentWebhook_unknown)
    then show ?thesis by simp
  qed
qed

text \<open>
  C9. A webhook that reports the success of a payment of an order that is cancelled is
  refused: the handler answers 500 and changes nothing. The order is in the table as it was,
  with its status \<open>cancelled\<close> and its \<open>paymentStatus\<close>, and the payment is as it was, not
  captured.
\<close>

theorem C9_capture_for_cancelled_order:
  assumes "switch_provider (webhookData req) = (Some paymentId, Some P_captured, transactionId)"
    and "paymentId \<noteq> []" and "payments d paymentId = Some row"
    and "find (\<lambda>r. oid r = order_id row) (orders d) = Some ord"
    and "status ord = Cancelled"
  shows "paymentWebhook now d req = (d, Failure 500 ''Webhook processing failed'') \<and>
    find (\<lambda>r. oid r = order_id row) (orders (fst (paymentWebhook now d req))) = Some ord \<and>
    payments (fst (paymentWebhook now d req)) paymentId = Some row"
  by (simp add: paymentWebhook_success [OF assms(1-3)] assms(3,4))

theorem C9_capture_for_cancelled_order_witness:
  "paymentWebhook 9 (sample_db Cancelled Pending) sample_capture =
     (sample_db Cancelled Pending, Failure 500 ''Webhook processing failed'')"
  using C9_capture_for_cancelled_order [of sample_capture "''p1''" "Some ''t1''"
      "sample_db Cancelled Pending" sample_payment "sample_order Cancelled Pending" 9]
  by (simp add: outcome_def)

subsection \<open>Order creation\<close>

text \<open>
  \<open>storeId\<close> is not a column of \<open>products\<close>, so the query of the create route throws; and
  \<open>Order.create\<close> throws for values without \<open>store_id\<close>.
\<close>

lemma findAll_products_storeId:
  "findAll_products [''id'', ''storeId'', ''is_active''] tbl productIds storeId = Inl DatabaseError"
  by (simp add: findAll_products_def Product_attributes_def)

lemma Order_create_without_store_id:
  "values_store_id v = None \<Longrightarrow> Order_create newId v rows = Inl ValidationError"
  by (simp add: Order_create_def)

text \<open>
  So the handler answers before it comes to the stock: 422 for a request that does not
  pass the validation, the order of the key if there is one, 400 for a store that is not
  open, and 500 otherwise. It never writes.
\<close>

lemma createOrder_answers:
  "createOrder d user uuid newId req =
     (if \<not> validationResult req then (d, Failure 422 ''Validation failed'')
      else
        case find (\<lambda>ord. idempotencyKey ord = idempotencyKey_of req uuid) (orders d) of
          Some existing \<Rightarrow> (d, Success 200 (OrderRef (oid existing) (status existing)))
        | None \<Rightarrow>
            (case stores d (body_storeId req) of
               None \<Rightarrow> (d, Failure 400 ''Store not available'')
             | Some store \<Rightarrow>
                 if store_status store \<noteq> Open_store then (d, Failure 400 ''Store not available'')
                 else (d, Failure 500 ''Failed to create order'')))"
  by (simp add: createOrder_def findAll_products_storeId Let_def split: option.splits)

lemma createOrder_db: "fst (createOrder d user uuid newId req) = d"
  by (simp add: createOrder_answers split: option.splits)

lemma createOrder_throws:
  assumes "validationResult req"
    and "find (\<lambda>ord. idempotencyKey ord = idempotencyKey_of req uuid) (orders d) = None"
    and "stores d (body_storeId req) = Some store" and "store_status store = Open_store"
  shows "createOrder d user uuid newId req = (d, Failure 500 ''Failed to create order'')"
  using assms by (simp add: createOrder_answers)

text \<open>
  C10. In the shop, the request for 2 units of \<open>P\<close>, which has 5 available, and the request
  for 6 units are answered alike, 500 "Failed to create order": the first is not reserved
  and no order is stored for it, the second is not answered with an insufficient-stock
  error that names \<open>P\<close>. The database is what it was.
\<close>

theorem C10_create_fails_before_stock:
  "createOrder shop_db ''u1'' ''U'' ''o2'' (order_units 2) =
     (shop_db, Failure 500 ''Failed to create order'') \<and>
   createOrder shop_db ''u1'' ''U'' ''o2'' (order_units 6) =
     (shop_db, Failure 500 ''Failed to create order'')"
  by (simp add: createOrder_answers validationResult_def idempotencyKey_of_def)

text \<open>
  The release loop of the cancel route saves, for each line, the row that it has just
  loaded: the route does not change the products.
\<close>

lemma releaseItems_unchanged: "releaseItems tbl its = tbl"
proof (induction its)
  case Nil
  show ?case by simp
next
  case (Cons it its)
  show ?case
  proof (cases "tbl (productId it)")
    case None
    with Cons show ?thesis by simp
  next
    case (Some p)
    then have "tbl(productId it \<mapsto> row_of (releaseReservation (load p) (release_amount it))) = tbl"
      by (simp add: releaseReservation_row_of load_simps map_upd_triv)
    with Cons Some show ?thesis by simp
  qed
qed

lemma cancelOrder_products: "products (fst (cancelOrder now d user orderId reason)) = products d"
  by (simp add: cancelOrder_def Let_def releaseItems_unchanged split: option.splits)

text \<open>
  C4. The scenario of the claim, step by step. Creating: in the shop, where \<open>P\<close> has 5 in
  stock and none reserved, the request for 2 units is answered 500; no order is stored and
  5 units are available, not 3. Cancelling: with the order \<open>o2\<close> for 2 units of \<open>P\<close> in the
  database and these 2 units reserved, so 3 available, the customer's cancellation is
  answered 200 and the order is stored as cancelled, but 3 units are available afterwards,
  not 5. The second cancellation is answered 400 and changes nothing.
\<close>

theorem C4_nothing_reserved_or_released:
  "orders (fst (createOrder shop_db ''u1'' ''U'' ''o2'' (order_units 2))) = [] \<and>
   map_option getAvailableQuantity
     (products (fst (createOrder shop_db ''u1'' ''U'' ''o2'' (order_units 2))) ''P'') = Some 5 \<and>
   map_option getAvailableQuantity (products (stocked_db Payment_pending) ''P'') = Some 3 \<and>
   cancelOrder 7 (stocked_db Payment_pending) ''u1'' ''o2'' None =
     (cancelled_db, Success 200 (Message ''Order cancelled'')) \<and>
   map_option getAvailableQuantity (products cancelled_db ''P'') = Some 3 \<and>
   cancelOrder 8 cancelled_db ''u1'' ''o2'' None =
     (cancelled_db, Failure 400 ''Order cannot be cancelled'')"
  by (simp add: createOrder_db getAvailableQuantity_def cancelOrder_def cancellable_def
      save_order_def releaseItems_unchanged)

subsection \<open>Idempotent creation\<close>






end
